theory Spec2Isabelle
  imports Main
begin

section \<open>Common ground: Python exceptions\<close>

text \<open>
  The exceptions the two modules raise or let through.  A Python function that can raise
  is modelled with a result of type \<open>error + 'a\<close> (\<open>Inl\<close> the exception); where the
  function also mutates an object, the object's state after the call is returned beside
  the result, so that the state left behind by a failing call is explicit.
  \<open>TransportError\<close> stands for whatever the feature query of the disco client raises
  (a timeout, a stanza error); \<open>ParseError\<close> for what the XML reader raises on a file
  it could open but not parse.
\<close>

datatype error =
    KeyError
  | ValueError
  | IndexError
  | OSError
  | TypeError
  | InvalidStateError
  | TransportError
  | ParseError

section \<open>\<open>asyncio_xmpp/callbacks.py\<close>: the tag dispatcher\<close>

text \<open>
  A callback is an arbitrary Python callable.  It is modelled as a transformer of the
  state \<open>'s\<close> of the world outside the dispatcher that also yields what the call
  returned: an exception, or the truthiness of the returned object.  The dispatcher is
  not part of that state: the model covers callbacks that do not call back into the
  dispatcher that is delivering to them.
\<close>

type_synonym ('a, 's) callback = "'a \<Rightarrow> 's \<Rightarrow> (error + bool) \<times> 's"

text \<open>
  \<open>add_listener\<close> takes any object with a \<open>data\<close> and an \<open>error\<close> method (duck
  typing): a listener is the record of its two methods.
\<close>

record ('d, 'e, 's) listener =
  data :: "('d, 's) callback"
  error :: "('e, 's) callback"

text \<open>
  \<^verbatim>\<open>
  class TagListener:
      def __init__(self, ondata, onerror=None): ...
      def data(self, data):
          self._ondata(data)
      def error(self, exc):
          if self._onerror is not None:
              self._onerror(exc)
  \<close>
  Neither method has a \<open>return\<close>: whatever the callback returns, the method returns
  \<open>None\<close>, which is falsy.  An exception of the callback passes through.
\<close>

definition TagListener ::
  "('d, 's) callback \<Rightarrow> ('e, 's) callback option \<Rightarrow> ('d, 'e, 's) listener" where
  "TagListener ondata onerror =
     \<lparr> data = (\<lambda>x s. case ondata x s of
                        (Inl exc, s') \<Rightarrow> (Inl exc, s')
                      | (Inr r, s') \<Rightarrow> (Inr False, s')),
       error = (\<lambda>x s. case onerror of
                        None \<Rightarrow> (Inr False, s)
                      | Some f \<Rightarrow> (case f x s of
                            (Inl exc, s') \<Rightarrow> (Inl exc, s')
                          | (Inr r, s') \<Rightarrow> (Inr False, s'))) \<rparr>"

text \<open>The dispatcher object: its only attribute is the dict \<open>_listeners\<close>.\<close>

record ('t, 'd, 'e, 's) TagDispatcher =
  listeners :: "'t \<rightharpoonup> ('d, 'e, 's) listener"

definition TagDispatcher_init :: "('t, 'd, 'e, 's) TagDispatcher" where
  "TagDispatcher_init = \<lparr> listeners = Map.empty \<rparr>"

text \<open>
  \<^verbatim>\<open>
  def add_listener(self, tag, listener):
      try:
          existing = self._listeners[tag]
      except KeyError:
          self._listeners[tag] = listener
      else:
          raise ValueError("only one listener is allowed per tag")
  \<close>
\<close>

definition add_listener ::
  "('t, 'd, 'e, 's) TagDispatcher \<Rightarrow> 't \<Rightarrow> ('d, 'e, 's) listener
     \<Rightarrow> (error + unit) \<times> ('t, 'd, 'e, 's) TagDispatcher" where
  "add_listener self tag l =
     (case listeners self tag of
        None \<Rightarrow> (Inr (), self\<lparr> listeners := (listeners self)(tag \<mapsto> l) \<rparr>)
      | Some existing \<Rightarrow> (Inl ValueError, self))"

definition add_callback ::
  "('t, 'd, 'e, 's) TagDispatcher \<Rightarrow> 't \<Rightarrow> ('d, 's) callback
     \<Rightarrow> (error + unit) \<times> ('t, 'd, 'e, 's) TagDispatcher" where
  "add_callback self tag fn = add_listener self tag (TagListener fn None)"

text \<open>
  \<^verbatim>\<open>
  def unicast(self, tag, data):
      cb = self._listeners[tag]
      cb.data(data)
  \<close>
  The subscript raises \<open>KeyError\<close> on an unknown tag.  What \<open>cb.data\<close> returns is
  dropped, and \<open>_listeners\<close> is not written.  The result is the exception or \<open>None\<close>,
  the dispatcher and the outside world after the call.
\<close>

definition unicast ::
  "('t, 'd, 'e, 's) TagDispatcher \<Rightarrow> 't \<Rightarrow> 'd \<Rightarrow> 's
     \<Rightarrow> (error + unit) \<times> ('t, 'd, 'e, 's) TagDispatcher \<times> 's" where
  "unicast self tag x s =
     (case listeners self tag of
        None \<Rightarrow> (Inl KeyError, self, s)
      | Some cb \<Rightarrow> (case data cb x s of
            (Inl exc, s') \<Rightarrow> (Inl exc, self, s')
          | (Inr r, s') \<Rightarrow> (Inr (), self, s')))"

text \<open>
  \<^verbatim>\<open>
  def remove_listener(self, tag):
      del self._listeners[tag]
  \<close>
\<close>

definition remove_listener ::
  "('t, 'd, 'e, 's) TagDispatcher \<Rightarrow> 't \<Rightarrow> (error + unit) \<times> ('t, 'd, 'e, 's) TagDispatcher" where
  "remove_listener self tag =
     (case listeners self tag of
        None \<Rightarrow> (Inl KeyError, self)
      | Some existing \<Rightarrow> (Inr (), self\<lparr> listeners := (listeners self)(tag := None) \<rparr>))"

section \<open>\<open>aioxmpp/entitycaps/service.py\<close>: values from outside the module\<close>

text \<open>
  Modelled from the spec: the capability key classes (\<open>caps115\<close>, \<open>caps390\<close>) are
  not in this module.  The spec gives a key as an immutable tuple of scheme, hash value
  and node locator, hashable and compared by its fields, with a deterministic relative
  storage path.  The module reads two attributes of a key (\<open>key.node\<close>, \<open>key.path\<close>),
  calls \<open>key.verify(data)\<close>, and uses keys as dict keys and set members: a key is the
  record of the three fields and of the value of \<open>key.path\<close>, and \<open>verify\<close> is a
  parameter of the functions that call it.  A path is the list of its components,
  \<open>base / rel\<close> is \<open>base @ rel\<close>.
\<close>

type_synonym path = "string list"

record key =
  scheme :: string
  hash_value :: string
  node :: string
  path :: path

text \<open>
  Modelled from the spec: the feature description (\<open>disco.xso.InfoQuery\<close>) is not in
  this module.  The spec gives a cache entry as a captured feature-description record
  plus the serialized events it came from; the module reads \<open>captured_events\<close> of it.
  \<open>copy.copy\<close> of a description is a new object with the same attribute values;
  descriptions are values here, so the copy is the value itself.
\<close>

record info_query =
  features :: "string list"
  captured_events :: "string list"

text \<open>
  The file system, as far as the module sees it: the files that can be opened for
  reading and their bytes.  Opening any other path raises \<open>OSError\<close>.
\<close>

type_synonym filesystem = "path \<rightharpoonup> string"

section \<open>The asyncio runtime, as far as the module uses it\<close>

text \<open>
  An \<open>asyncio.Future\<close> is pending, or done with a result or an exception.  Its done
  callbacks are all of the form \<open>functools.partial(cache._erase_future, key)\<close>: a
  callback is the key.  A future is an object with an identity: the store \<open>futures\<close>
  maps the address of each future to its state, \<open>next_future\<close> is the first address
  not yet handed out, and \<open>is\<close> on futures is equality of addresses.

  The event loop holds \<open>ready\<close>, the calls that \<open>call_soon\<close> queued (settling a
  future queues each of its done callbacks with the future as argument, in the order they
  were added), and \<open>executor\<close>, the calls handed to \<open>run_in_executor\<close>, of which the
  module only ever submits \<open>writeback\<close> with a list of positional arguments.
\<close>

type_synonym fut_id = nat

datatype 'a fut_state = Pending | Done "error + 'a"

record future =
  state :: "info_query fut_state"
  callbacks :: "key list"

datatype pyval = PathV path | StrV string | EventsV "string list"

text \<open>
  \<^verbatim>\<open>
  class Cache:
      def __init__(self):
          self._lookup_cache = {}
          self._memory_overlay = {}
          self._system_db_path = None
          self._user_db_path = None
  \<close>
\<close>

record Cache =
  lookup_cache :: "key \<rightharpoonup> fut_id"
  memory_overlay :: "key \<rightharpoonup> info_query"
  system_db_path :: "path option"
  user_db_path :: "path option"

definition Cache_init :: Cache where
  "Cache_init = \<lparr> lookup_cache = Map.empty, memory_overlay = Map.empty,
                  system_db_path = None, user_db_path = None \<rparr>"

text \<open>The cache together with the runtime its methods act on.\<close>

record world =
  cache :: Cache
  futures :: "fut_id \<Rightarrow> future"
  next_future :: fut_id
  ready :: "(key \<times> fut_id) list"
  executor :: "pyval list list"

definition world_init :: world where
  "world_init = \<lparr> cache = Cache_init,
                  futures = (\<lambda>f. \<lparr> state = Pending, callbacks = [] \<rparr>),
                  next_future = 0, ready = [], executor = [] \<rparr>"

definition fut_state_of :: "world \<Rightarrow> fut_id \<Rightarrow> info_query fut_state" where
  "fut_state_of w fut = state (futures w fut)"

text \<open>\<open>asyncio.Future()\<close>: a new pending future with no callbacks.\<close>

definition new_future :: "world \<Rightarrow> fut_id \<times> world" where
  "new_future w =
     (next_future w,
      w\<lparr> futures := (futures w)(next_future w := \<lparr> state = Pending, callbacks = [] \<rparr>),
         next_future := Suc (next_future w) \<rparr>)"

text \<open>
  \<open>fut.add_done_callback(cb)\<close>: on a done future the callback is queued at once, on a
  pending one it is kept for the time the future is settled.
\<close>

definition add_done_callback :: "world \<Rightarrow> fut_id \<Rightarrow> key \<Rightarrow> world" where
  "add_done_callback w fut k =
     (case state (futures w fut) of
        Pending \<Rightarrow>
          w\<lparr> futures := (futures w)
                (fut := (futures w fut)\<lparr> callbacks := callbacks (futures w fut) @ [k] \<rparr>) \<rparr>
      | Done r \<Rightarrow> w\<lparr> ready := ready w @ [(k, fut)] \<rparr>)"

text \<open>
  \<open>fut.set_result(v)\<close> and \<open>fut.set_exception(exc)\<close>: both raise
  \<open>InvalidStateError\<close> on a future that is already done and change nothing then;
  otherwise the future is done and its callbacks are queued.
\<close>

definition settle :: "world \<Rightarrow> fut_id \<Rightarrow> error + info_query \<Rightarrow> (error + unit) \<times> world" where
  "settle w fut r =
     (case state (futures w fut) of
        Done r0 \<Rightarrow> (Inl InvalidStateError, w)
      | Pending \<Rightarrow>
          (Inr (),
           w\<lparr> futures := (futures w)(fut := \<lparr> state = Done r, callbacks = [] \<rparr>),
              ready := ready w @ map (\<lambda>k. (k, fut)) (callbacks (futures w fut)) \<rparr>))"

definition set_result :: "world \<Rightarrow> fut_id \<Rightarrow> info_query \<Rightarrow> (error + unit) \<times> world" where
  "set_result w fut v = settle w fut (Inr v)"

definition set_exception :: "world \<Rightarrow> fut_id \<Rightarrow> error \<Rightarrow> (error + unit) \<times> world" where
  "set_exception w fut exc = settle w fut (Inl exc)"

section \<open>\<open>aioxmpp/entitycaps/service.py\<close>: the cache\<close>

text \<open>
  \<^verbatim>\<open>
  def _erase_future(self, key, fut):
      try:
          existing = self._lookup_cache[key]
      except KeyError:
          pass
      else:
          if existing is fut:
              del self._lookup_cache[key]
  \<close>
\<close>

definition erase_future :: "Cache \<Rightarrow> key \<Rightarrow> fut_id \<Rightarrow> Cache" where
  "erase_future self k fut =
     (case lookup_cache self k of
        None \<Rightarrow> self
      | Some existing \<Rightarrow>
          if existing = fut then self\<lparr> lookup_cache := (lookup_cache self)(k := None) \<rparr>
          else self)"

text \<open>
  \<^verbatim>\<open>
  def set_system_db_path(self, path):
      self._system_db_path = path

  def set_user_db_path(self, path):
      self._user_db_path = path
  \<close>
\<close>

definition set_system_db_path :: "Cache \<Rightarrow> path option \<Rightarrow> Cache" where
  "set_system_db_path self p = self\<lparr> system_db_path := p \<rparr>"

definition set_user_db_path :: "Cache \<Rightarrow> path option \<Rightarrow> Cache" where
  "set_user_db_path self p = self\<lparr> user_db_path := p \<rparr>"

text \<open>The event loop runs the calls it queued, oldest first; each is an \<open>_erase_future\<close>.\<close>

fun run_calls :: "(key \<times> fut_id) list \<Rightarrow> Cache \<Rightarrow> Cache" where
  "run_calls [] c = c"
| "run_calls ((k, fut) # calls) c = run_calls calls (erase_future c k fut)"

definition run_ready :: "world \<Rightarrow> world" where
  "run_ready w = w\<lparr> cache := run_calls (ready w) (cache w), ready := [] \<rparr>"

text \<open>
  \<^verbatim>\<open>
  def lookup_in_database(self, key):
      try:
          result = self._memory_overlay[key]
      except KeyError:
          pass
      else:
          return result
      key_path = key.path
      if self._system_db_path is not None:
          try:
              f = (self._system_db_path / key_path).open("rb")
          except OSError:
              pass
          else:
              with f:
                  return aioxmpp.xml.read_single_xso(f, disco.xso.InfoQuery)
      if self._user_db_path is not None:
          try:
              f = (self._user_db_path / key_path).open("rb")
          except OSError:
              pass
          else:
              with f:
                  return aioxmpp.xml.read_single_xso(f, disco.xso.InfoQuery)
      raise KeyError(key)
  \<close>
  \<open>read_single_xso\<close> is the XML reader of another module, a parameter: from the bytes
  of an opened file it gives a description or raises.  Beside the result the model
  returns the paths the call tried to open, in the order it tried them.  The two blocks
  for the stores are the same code on two paths, \<open>read_db_file\<close>: nothing when the
  store is not configured or the file cannot be opened (the \<open>OSError\<close> is swallowed),
  else what the reader returns or raises, which is what \<open>lookup_in_database\<close> then
  returns or raises.
\<close>

definition read_db_file ::
  "(string \<Rightarrow> error + info_query) \<Rightarrow> filesystem \<Rightarrow> path option \<Rightarrow> path
     \<Rightarrow> (error + info_query) option \<times> path list" where
  "read_db_file read_single_xso fs db_path key_path =
     (case db_path of
        None \<Rightarrow> (None, [])
      | Some p \<Rightarrow>
          (case fs (p @ key_path) of
             None \<Rightarrow> (None, [p @ key_path])
           | Some bytes \<Rightarrow> (Some (read_single_xso bytes), [p @ key_path])))"

definition lookup_in_database ::
  "(string \<Rightarrow> error + info_query) \<Rightarrow> Cache \<Rightarrow> filesystem \<Rightarrow> key
     \<Rightarrow> (error + info_query) \<times> path list" where
  "lookup_in_database read_single_xso self fs k =
     (case memory_overlay self k of
        Some result \<Rightarrow> (Inr result, [])
      | None \<Rightarrow>
          (let key_path = path k
           in case read_db_file read_single_xso fs (system_db_path self) key_path of
                (Some r, opened1) \<Rightarrow> (r, opened1)
              | (None, opened1) \<Rightarrow>
                  (case read_db_file read_single_xso fs (user_db_path self) key_path of
                     (Some r, opened2) \<Rightarrow> (r, opened1 @ opened2)
                   | (None, opened2) \<Rightarrow> (Inl KeyError, opened1 @ opened2))))"

text \<open>
  A coroutine, run from where it stands until it returns, raises or suspends at a
  \<open>yield from\<close>; \<open>Suspend\<close> carries what it waits for and the local variables it
  needs when it goes on.
\<close>

datatype ('a, 'w) co = Return 'a | Raise error | Suspend 'w

text \<open>
  \<^verbatim>\<open>
  @asyncio.coroutine
  def lookup(self, key):
      try:
          result = self.lookup_in_database(key)
      except KeyError:
          pass
      else:
          return result
      while True:
          fut = self._lookup_cache[key]
          try:
              result = yield from fut
          except ValueError:
              continue
          else:
              return result
  \<close>
  \<open>yield from fut\<close> on a pending future suspends the coroutine; on a done future it
  gives the result or raises the exception at once, with no suspension.  The loop
  \<open>lookup_wait\<close> may therefore run forever without suspending (a done future with a
  \<open>ValueError\<close> that is still in the dict is read again and again): not returning is
  the value \<open>None\<close>.  \<open>lookup_resume\<close> is the coroutine going on at the
  \<open>yield from\<close> where it was suspended, in the world as it is then.
\<close>

partial_function (option) lookup_wait :: "world \<Rightarrow> key \<Rightarrow> (info_query, fut_id) co option" where
  "lookup_wait w k =
     (case lookup_cache (cache w) k of
        None \<Rightarrow> Some (Raise KeyError)
      | Some fut \<Rightarrow>
          (case fut_state_of w fut of
             Pending \<Rightarrow> Some (Suspend fut)
           | Done r \<Rightarrow>
               (case r of
                  Inr result \<Rightarrow> Some (Return result)
                | Inl exc \<Rightarrow> if exc = ValueError then lookup_wait w k else Some (Raise exc))))"

definition lookup_resume :: "world \<Rightarrow> key \<Rightarrow> fut_id \<Rightarrow> (info_query, fut_id) co option" where
  "lookup_resume w k fut =
     (case fut_state_of w fut of
        Pending \<Rightarrow> Some (Suspend fut)
      | Done r \<Rightarrow>
          (case r of
             Inr result \<Rightarrow> Some (Return result)
           | Inl exc \<Rightarrow> if exc = ValueError then lookup_wait w k else Some (Raise exc)))"

definition lookup ::
  "(string \<Rightarrow> error + info_query) \<Rightarrow> world \<Rightarrow> filesystem \<Rightarrow> key
     \<Rightarrow> (info_query, fut_id) co option" where
  "lookup read_single_xso w fs k =
     (case fst (lookup_in_database read_single_xso (cache w) fs k) of
        Inr result \<Rightarrow> Some (Return result)
      | Inl exc \<Rightarrow> if exc = KeyError then lookup_wait w k else Some (Raise exc))"

text \<open>
  \<^verbatim>\<open>
  def create_query_future(self, key):
      fut = asyncio.Future()
      fut.add_done_callback(functools.partial(self._erase_future, key))
      self._lookup_cache[key] = fut
      return fut
  \<close>
\<close>

definition create_query_future :: "world \<Rightarrow> key \<Rightarrow> fut_id \<times> world" where
  "create_query_future w k =
     (let (fut, w1) = new_future w;
          w2 = add_done_callback w1 fut k
      in (fut, w2\<lparr> cache := (cache w2)\<lparr> lookup_cache := (lookup_cache (cache w2))(k \<mapsto> fut) \<rparr> \<rparr>))"

text \<open>
  \<^verbatim>\<open>
  def add_cache_entry(self, key, entry):
      copied_entry = copy.copy(entry)
      self._memory_overlay[key] = copied_entry
      if self._user_db_path is not None:
          asyncio.async(asyncio.get_event_loop().run_in_executor(
              None,
              writeback,
              self._user_db_path / key.path,
              entry.captured_events))
  \<close>
  \<open>run_in_executor(None, writeback, a, b)\<close> hands the call \<open>writeback(a, b)\<close> to the
  executor; nobody waits for the task wrapped around it.
\<close>

definition add_cache_entry :: "world \<Rightarrow> key \<Rightarrow> info_query \<Rightarrow> world" where
  "add_cache_entry w k entry =
     (let copied_entry = entry;
          w1 = w\<lparr> cache := (cache w)\<lparr> memory_overlay := (memory_overlay (cache w))(k \<mapsto> copied_entry) \<rparr> \<rparr>
      in case user_db_path (cache w1) of
           None \<Rightarrow> w1
         | Some up \<Rightarrow>
             w1\<lparr> executor := executor w1 @ [[PathV (up @ path k), EventsV (captured_events entry)]] \<rparr>)"

text \<open>
  \<^verbatim>\<open>
  def writeback(base_path, hash_, node, captured_events):
      quoted = urllib.parse.quote(node, safe="")
      dest_path = base_path / "{}_{}.xml".format(hash_, quoted)
      with tempfile.NamedTemporaryFile(dir=str(base_path), delete=False) as tmpf:
          try:
              generator = aioxmpp.xml.XMPPXMLGenerator(tmpf, short_empty_elements=True)
              generator.startDocument()
              aioxmpp.xso.events_to_sax(captured_events, generator)
              generator.endDocument()
          except:
              os.unlink(tmpf.name)
              raise
          os.replace(tmpf.name, str(dest_path))
  \<close>
  \<open>hash'\<close> is the source's \<open>hash_\<close>.  Parameters: \<open>quote\<close>, the URL escaping;
  \<open>generate\<close>, the bytes the XML generator writes for the events, or the exception it
  raises; \<open>tmpname\<close>, the name the temporary file gets.  The directory \<open>base_path\<close>
  is taken to exist.  A failing generator leaves no temporary file; a successful one ends
  with the temporary file renamed to \<open>dest_path\<close>.
\<close>

definition writeback ::
  "(string \<Rightarrow> string) \<Rightarrow> (string list \<Rightarrow> error + string) \<Rightarrow> string
     \<Rightarrow> path \<Rightarrow> string \<Rightarrow> string \<Rightarrow> string list \<Rightarrow> filesystem
     \<Rightarrow> (error + unit) \<times> filesystem" where
  "writeback quote generate tmpname base_path hash' nd events fs =
     (let quoted = quote nd;
          dest_path = base_path @ [hash' @ ''_'' @ quoted @ ''.xml''];
          tmpf = base_path @ [tmpname]
      in case generate events of
           Inl exc \<Rightarrow> (Inl exc, fs(tmpf := None))
         | Inr bytes \<Rightarrow> (Inr (), (fs(tmpf := None))(dest_path \<mapsto> bytes)))"

text \<open>
  The executor calling \<open>writeback(*args)\<close>: \<open>writeback\<close> has four positional
  parameters and no defaults, so a call with any other number of arguments raises
  \<open>TypeError\<close> before the body runs.  With four arguments the body runs on a path,
  two strings and the events, the values its signature names; four arguments of other
  kinds are given \<open>TypeError\<close> as well.
\<close>

definition call_writeback ::
  "(string \<Rightarrow> string) \<Rightarrow> (string list \<Rightarrow> error + string) \<Rightarrow> string
     \<Rightarrow> pyval list \<Rightarrow> filesystem \<Rightarrow> (error + unit) \<times> filesystem" where
  "call_writeback quote generate tmpname args fs =
     (if length args \<noteq> 4 then (Inl TypeError, fs)
      else case args of
             [PathV base_path, StrV hash', StrV nd, EventsV events] \<Rightarrow>
               writeback quote generate tmpname base_path hash' nd events fs
           | _ \<Rightarrow> (Inl TypeError, fs))"

section \<open>\<open>aioxmpp/entitycaps/service.py\<close>: the service\<close>

text \<open>
  What a suspended \<open>lookup_info\<close> waits for: a future, inside \<open>cache.lookup(key)\<close>
  in the loop (with the keys still to try), or the answer to
  \<open>disco_client.query_info(jid, node=key.node, require_fresh=True)\<close> inside
  \<open>query_and_cache(jid, key, fut)\<close>.
\<close>

datatype wait = InLookup key "key list" fut_id | InQuery string key fut_id

text \<open>
  \<^verbatim>\<open>
  @asyncio.coroutine
  def query_and_cache(self, jid, key, fut):
      data = yield from self.disco_client.query_info(
          jid, node=key.node, require_fresh=True)
      try:
          if key.verify(data):
              self.cache.add_cache_entry(key, data)
              fut.set_result(data)
          else:
              raise ValueError("hash mismatch")
      except ValueError as exc:
          fut.set_exception(exc)
      return data
  \<close>
  The coroutine first waits for the query; \<open>query_and_cache_resume\<close> is the rest, run
  with the answer: the description, or the exception the query raised.
\<close>

definition query_and_cache :: "string \<Rightarrow> key \<Rightarrow> fut_id \<Rightarrow> (info_query, wait) co" where
  "query_and_cache jid k fut = Suspend (InQuery jid k fut)"

definition query_and_cache_resume ::
  "(key \<Rightarrow> info_query \<Rightarrow> bool) \<Rightarrow> world \<Rightarrow> key \<Rightarrow> fut_id \<Rightarrow> error + info_query
     \<Rightarrow> (info_query, wait) co \<times> world" where
  "query_and_cache_resume verify w k fut response =
     (case response of
        Inl exc \<Rightarrow> (Raise exc, w)
      | Inr info \<Rightarrow>
          if verify k info then
            (case set_result (add_cache_entry w k info) fut info of
               (Inr u, w') \<Rightarrow> (Return info, w')
             | (Inl exc, w') \<Rightarrow>
                 if exc = ValueError then
                   (case set_exception w' fut exc of
                      (Inr u, w'') \<Rightarrow> (Return info, w'')
                    | (Inl exc', w'') \<Rightarrow> (Raise exc', w''))
                 else (Raise exc, w'))
          else
            (case set_exception w fut ValueError of
               (Inr u, w') \<Rightarrow> (Return info, w')
             | (Inl exc, w') \<Rightarrow> (Raise exc, w')))"

text \<open>
  \<^verbatim>\<open>
  @asyncio.coroutine
  def lookup_info(self, jid, keys):
      for key in keys:
          try:
              info = yield from self.cache.lookup(key)
          except KeyError:
              continue
          return info
      first_key = keys[0]
      fut = self.cache.create_query_future(first_key)
      info = yield from self.query_and_cache(jid, first_key, fut)
      return info
  \<close>
  \<open>lookup_info_query\<close> is the part after the loop, \<open>lookup_info_loop\<close> the loop over
  the keys still to try, \<open>lookup_info_resume\<close> the coroutine going on where it was
  suspended.
\<close>

definition lookup_info_query :: "world \<Rightarrow> string \<Rightarrow> key list \<Rightarrow> (info_query, wait) co \<times> world" where
  "lookup_info_query w jid keys =
     (case keys of
        [] \<Rightarrow> (Raise IndexError, w)
      | first_key # _ \<Rightarrow>
          (let (fut, w') = create_query_future w first_key
           in (query_and_cache jid first_key fut, w')))"

fun lookup_info_loop ::
  "(string \<Rightarrow> error + info_query) \<Rightarrow> world \<Rightarrow> filesystem \<Rightarrow> string \<Rightarrow> key list \<Rightarrow> key list
     \<Rightarrow> ((info_query, wait) co \<times> world) option" where
  "lookup_info_loop read_single_xso w fs jid keys [] = Some (lookup_info_query w jid keys)"
| "lookup_info_loop read_single_xso w fs jid keys (k # rest) =
     (case lookup read_single_xso w fs k of
        None \<Rightarrow> None
      | Some (Return info) \<Rightarrow> Some (Return info, w)
      | Some (Raise exc) \<Rightarrow>
          if exc = KeyError then lookup_info_loop read_single_xso w fs jid keys rest
          else Some (Raise exc, w)
      | Some (Suspend fut) \<Rightarrow> Some (Suspend (InLookup k rest fut), w))"

definition lookup_info ::
  "(string \<Rightarrow> error + info_query) \<Rightarrow> world \<Rightarrow> filesystem \<Rightarrow> string \<Rightarrow> key list
     \<Rightarrow> ((info_query, wait) co \<times> world) option" where
  "lookup_info read_single_xso w fs jid keys = lookup_info_loop read_single_xso w fs jid keys keys"

definition lookup_info_resume ::
  "(string \<Rightarrow> error + info_query) \<Rightarrow> (key \<Rightarrow> info_query \<Rightarrow> bool) \<Rightarrow> world \<Rightarrow> filesystem
     \<Rightarrow> string \<Rightarrow> key list \<Rightarrow> wait \<Rightarrow> error + info_query
     \<Rightarrow> ((info_query, wait) co \<times> world) option" where
  "lookup_info_resume read_single_xso verify w fs jid keys wt response =
     (case wt of
        InLookup k rest fut \<Rightarrow>
          (case lookup_resume w k fut of
             None \<Rightarrow> None
           | Some (Return info) \<Rightarrow> Some (Return info, w)
           | Some (Raise exc) \<Rightarrow>
               if exc = KeyError then lookup_info_loop read_single_xso w fs jid keys rest
               else Some (Raise exc, w)
           | Some (Suspend fut') \<Rightarrow> Some (Suspend (InLookup k rest fut'), w))
      | InQuery jid' k fut \<Rightarrow> Some (query_and_cache_resume verify w k fut response))"

text \<open>
  \<^verbatim>\<open>
  def handle_inbound_presence(self, presence):
      keys = []
      if self.xep390_support:
          keys.extend(self.__390.extract_keys(presence))
      if self.xep115_support:
          keys.extend(self.__115.extract_keys(presence))
      if keys:
          lookup_task = asyncio.async(self.lookup_info(presence.from_, keys))
          self.disco_client.set_info_future(presence.from_, None, lookup_task)
      return presence
  \<close>
  The two \<open>extract_keys\<close> are parameters.  Beside the presence the model returns the
  \<open>lookup_info\<close> call it started, if any: its \<open>jid\<close> and \<open>keys\<close>.  The presence
  class is not in this module, which reads \<open>presence.from_\<close> (\<open>from'\<close> here) and
  hands the presence to \<open>extract_keys\<close>; \<open>payload\<close> stands for the rest of it.
\<close>

record presence =
  from' :: string
  payload :: "string list"

definition handle_inbound_presence ::
  "(presence \<Rightarrow> key list) \<Rightarrow> (presence \<Rightarrow> key list) \<Rightarrow> bool \<Rightarrow> bool \<Rightarrow> presence
     \<Rightarrow> presence \<times> (string \<times> key list) option" where
  "handle_inbound_presence extract_keys390 extract_keys115 xep390 xep115 pres =
     (let keys = (if xep390 then extract_keys390 pres else [])
               @ (if xep115 then extract_keys115 pres else [])
      in (pres, if keys \<noteq> [] then Some (from' pres, keys) else None))"

text \<open>
  The service's own state for \<open>update_hash\<close>: the dict \<open>__current_keys\<close>, from the
  implementation object of a scheme (\<open>self.__115\<close>, \<open>self.__390\<close>) to the set of keys
  advertised for it, and the two enable flags.  A dict is the list of its items in
  insertion order; a set of keys is a list without duplicates, in the order a \<open>for\<close>
  over the set visits them.  \<open>dict_eq\<close> is \<open>==\<close> on such dicts: the same keys, and
  for each key values that are equal as sets.
\<close>

datatype impl = Caps115 | Caps390

definition dict_eq :: "(impl \<times> key list) list \<Rightarrow> (impl \<times> key list) list \<Rightarrow> bool" where
  "dict_eq a b =
     (set (map fst a) = set (map fst b)
      \<and> list_all (\<lambda>(i, g). case map_of b i of None \<Rightarrow> False | Some g' \<Rightarrow> set g = set g') a)"

text \<open>
  Modelled from the spec: the advertisement-endpoint collaborator (the disco server's
  \<open>mount_node\<close> and \<open>unmount_node\<close>) and the change notification \<open>on_ver_changed\<close>
  are not in this module.  The spec gives \<open>mount(nodeLocator, infoProvider)\<close> and
  \<open>unmount(nodeLocator)\<close> as synchronous and idempotent per locator, and the
  notification as a signal without arguments.  Each call is recorded in \<open>trace\<close>, in the
  order the calls are made; \<open>mounts\<close> is what is mounted.
\<close>

datatype event = Unmount string | Mount string | VerChanged

record service =
  current_keys :: "(impl \<times> key list) list"
  xep115_support :: bool
  xep390_support :: bool
  mounts :: "string \<rightharpoonup> info_query"
  trace :: "event list"

definition unmount_node :: "service \<Rightarrow> string \<Rightarrow> service" where
  "unmount_node self nd = self\<lparr> mounts := (mounts self)(nd := None), trace := trace self @ [Unmount nd] \<rparr>"

definition mount_node :: "service \<Rightarrow> string \<Rightarrow> info_query \<Rightarrow> service" where
  "mount_node self nd info = self\<lparr> mounts := (mounts self)(nd \<mapsto> info), trace := trace self @ [Mount nd] \<rparr>"

definition on_ver_changed :: "service \<Rightarrow> service" where
  "on_ver_changed self = self\<lparr> trace := trace self @ [VerChanged] \<rparr>"

text \<open>
  \<^verbatim>\<open>
  def update_hash(self):
      node = disco.StaticNode.clone(self.disco_server)
      info = node.as_info_xso()
      new_keys = {}
      if self.xep115_support:
          new_keys[self.__115] = set(self.__115.calculate_keys(info))
      if self.xep390_support:
          new_keys[self.__390] = set(self.__390.calculate_keys(info))
      if self.__current_keys == new_keys:
          return
      for group in self.__current_keys.values():
          for key in group:
              self.disco_server.unmount_node(key.node)
      self.__current_keys = new_keys
      for group in new_keys.values():
          for key in group:
              self.disco_server.mount_node(key.node, node)
      self.on_ver_changed()
  \<close>
  The two \<open>calculate_keys\<close> are parameters, and so is \<open>info\<close>, the description of
  the disco server's features at the time of the call.  Python visits the members of a
  set in an order of its own; the model visits a group in the order of the calculated
  list, one of the orders the code can take, and nothing stated below depends on the
  order inside a group.
\<close>

definition update_hash ::
  "(info_query \<Rightarrow> key list) \<Rightarrow> (info_query \<Rightarrow> key list) \<Rightarrow> service \<Rightarrow> info_query \<Rightarrow> service" where
  "update_hash calculate_keys115 calculate_keys390 self info =
     (let new_keys =
            (if xep115_support self then [(Caps115, remdups (calculate_keys115 info))] else [])
          @ (if xep390_support self then [(Caps390, remdups (calculate_keys390 info))] else [])
      in if dict_eq (current_keys self) new_keys then self
         else
           (let s1 = fold (\<lambda>k s. unmount_node s (node k)) (concat (map snd (current_keys self))) self;
                s2 = s1\<lparr> current_keys := new_keys \<rparr>;
                s3 = fold (\<lambda>k s. mount_node s (node k) info) (concat (map snd new_keys)) s2
            in on_ver_changed s3))"

section \<open>Notions for the statements\<close>

text \<open>
  A store tier misses for a key when no store is configured there or the key's file in
  it cannot be opened.
\<close>

definition store_miss :: "filesystem \<Rightarrow> path option \<Rightarrow> key \<Rightarrow> bool" where
  "store_miss fs db k = (case db of None \<Rightarrow> True | Some p \<Rightarrow> fs (p @ path k) = None)"

text \<open>
  The dict \<open>new_keys\<close> that \<open>update_hash\<close> computes, on its own, to state what the
  function does with it.
\<close>

definition new_keys_of ::
  "(info_query \<Rightarrow> key list) \<Rightarrow> (info_query \<Rightarrow> key list) \<Rightarrow> service \<Rightarrow> info_query
     \<Rightarrow> (impl \<times> key list) list" where
  "new_keys_of calculate_keys115 calculate_keys390 self info =
     (if xep115_support self then [(Caps115, remdups (calculate_keys115 info))] else [])
   @ (if xep390_support self then [(Caps390, remdups (calculate_keys390 info))] else [])"

section \<open>Examples\<close>

text \<open>
  Two keys and two descriptions.  The example \<open>verify\<close> accepts a description for a key
  when the key's hash value is the concatenation of the description's features;
  \<open>parse_ex\<close> reads every file but the one holding \<open>bad\<close>.
\<close>

definition k1 :: key where
  "k1 = \<lparr> scheme = ''sha-1'', hash_value = ''ab'', node = ''n#ab'', path = [''sha-1_ab.xml''] \<rparr>"

definition k2 :: key where
  "k2 = \<lparr> scheme = ''sha-256'', hash_value = ''cd'', node = ''n#cd'', path = [''sha-256_cd.xml''] \<rparr>"

definition info_ab :: info_query where
  "info_ab = \<lparr> features = [''a'', ''b''], captured_events = [''ev_a'', ''ev_b''] \<rparr>"

definition info_x :: info_query where
  "info_x = \<lparr> features = [''x''], captured_events = [''ev_x''] \<rparr>"

definition verify_ex :: "key \<Rightarrow> info_query \<Rightarrow> bool" where
  "verify_ex k info = (hash_value k = concat (features info))"

definition parse_ex :: "string \<Rightarrow> error + info_query" where
  "parse_ex bytes =
     (if bytes = ''bad'' then Inl ParseError
      else Inr \<lparr> features = [bytes], captured_events = [] \<rparr>)"

text \<open>
  Two listeners for the examples.  Both prepend what they were given to a log, the state
  of the outside world.  \<open>recorder\<close> is a \<open>TagListener\<close> around a callback that returns
  \<open>True\<close>; \<open>consuming\<close> is an object whose \<open>data\<close> and \<open>error\<close> methods themselves
  return \<open>True\<close>, the way a oneshot listener reports that it is done.
\<close>

definition log_true :: "(nat, nat list) callback" where
  "log_true x s = (Inr True, x # s)"

definition recorder :: "(nat, nat, nat list) listener" where
  "recorder = TagListener log_true None"

definition consuming :: "(nat, nat, nat list) listener" where
  "consuming = \<lparr> data = log_true, error = log_true \<rparr>"

text \<open>
  A dispatcher after \<open>add_callback\<close> of the callback that returns \<open>True\<close> on tag
  \<open>0\<close>, and a dispatcher whose tag \<open>0\<close> has the listener \<open>consuming\<close>.
\<close>

definition callback_at_0 :: "(nat, nat, nat, nat list) TagDispatcher" where
  "callback_at_0 = snd (add_callback TagDispatcher_init 0 log_true)"

definition consuming_at_0 :: "(nat, nat, nat, nat list) TagDispatcher" where
  "consuming_at_0 = snd (add_listener TagDispatcher_init 0 consuming)"

text \<open>
  A cache with both stores configured, the same after \<open>k1\<close> was added to it, and file
  systems holding a file for \<open>k1\<close> in both stores or in the user store only.
\<close>

definition w_paths :: world where
  "w_paths = world_init\<lparr> cache :=
      set_user_db_path (set_system_db_path Cache_init (Some [''sys''])) (Some [''usr'']) \<rparr>"

definition w_mem :: world where
  "w_mem = add_cache_entry w_paths k1 info_ab"

definition fs_both :: filesystem where
  "fs_both = [[''sys'', ''sha-1_ab.xml''] \<mapsto> ''s'', [''usr'', ''sha-1_ab.xml''] \<mapsto> ''u'']"

definition fs_usr :: filesystem where
  "fs_usr = [[''usr'', ''sha-1_ab.xml''] \<mapsto> ''u'']"

text \<open>
  A file system in which the system store's file for \<open>k1\<close> opens but holds \<open>bad\<close>,
  beside a good file in the user store, and a reader for which reading \<open>bad\<close> fails
  with \<open>OSError\<close>, an input error after the file was opened.
\<close>

definition fs_corrupt :: filesystem where
  "fs_corrupt = [[''sys'', ''sha-1_ab.xml''] \<mapsto> ''bad'', [''usr'', ''sha-1_ab.xml''] \<mapsto> ''u'']"

definition read_ex :: "string \<Rightarrow> error + info_query" where
  "read_ex bytes = (if bytes = ''bad'' then Inl OSError else parse_ex bytes)"

text \<open>
  Worlds for the examples: a future (address \<open>0\<close>) registered for \<open>k1\<close> and
  pending; the same after the future was failed with \<open>ValueError\<close> and the event loop
  ran the queued calls; then with a second future (address \<open>1\<close>) registered for
  \<open>k1\<close>.  In \<open>w_two\<close> the second future was registered while the first was still
  pending.
\<close>

definition w_pending :: world where
  "w_pending = snd (create_query_future world_init k1)"

definition w_failed :: world where
  "w_failed = run_ready (snd (set_exception w_pending 0 ValueError))"

definition w_retry :: world where
  "w_retry = snd (create_query_future w_failed k1)"

definition w_two :: world where
  "w_two = snd (create_query_future w_pending k1)"

text \<open>
  The world right after the future of \<open>k1\<close> was failed: the future is done, its
  \<open>_erase_future\<close> call is queued and has not run yet.
\<close>

definition w_settled :: world where
  "w_settled = snd (set_exception w_pending 0 ValueError)"

text \<open>
  Two presences from a peer, with and without a capability advertisement, and an
  \<open>extract_keys\<close> that finds the given key in a presence that has one.
\<close>

definition pres_caps :: presence where
  "pres_caps = \<lparr> from' = ''peer@example/r'', payload = [''caps''] \<rparr>"

definition pres_plain :: presence where
  "pres_plain = \<lparr> from' = ''peer@example/r'', payload = [] \<rparr>"

definition extract_ex :: "key \<Rightarrow> presence \<Rightarrow> key list" where
  "extract_ex k pres = (if payload pres = [] then [] else [k])"

text \<open>
  A service that advertises \<open>k1\<close> for the first scheme only (after one
  \<open>update_hash\<close> with the second scheme disabled), and the same service once the
  second scheme is enabled, for which \<open>k2\<close> is then calculated.
\<close>

definition calc115_ex :: "info_query \<Rightarrow> key list" where
  "calc115_ex info = [k1]"

definition calc390_ex :: "info_query \<Rightarrow> key list" where
  "calc390_ex info = [k2]"

definition service_init :: service where
  "service_init = \<lparr> current_keys = [], xep115_support = True, xep390_support = False,
                    mounts = Map.empty, trace = [] \<rparr>"

definition service_115 :: service where
  "service_115 = (update_hash calc115_ex calc390_ex service_init info_ab)\<lparr> trace := [] \<rparr>"

definition service_both :: service where
  "service_both = service_115\<lparr> xep390_support := True \<rparr>"

section \<open>Properties of the tag dispatcher\<close>

text \<open>
  C9.  When a tag already has a listener, \<open>add_listener\<close> for that tag with any second
  listener raises (\<open>ValueError\<close>) and leaves the dispatcher as it was: the first listener
  is still the one registered, and a following \<open>unicast\<close> on the tag calls the first
  listener's \<open>data\<close> method with the data, on the unchanged dispatcher.
\<close>

theorem add_listener_duplicate_rejected:
  assumes "listeners self tag = Some l1"
  shows "add_listener self tag l2 = (Inl ValueError, self)
       \<and> listeners (snd (add_listener self tag l2)) tag = Some l1
       \<and> unicast (snd (add_listener self tag l2)) tag x s =
           ((case fst (data l1 x s) of Inl exc \<Rightarrow> Inl exc | Inr r \<Rightarrow> Inr ()),
            self, snd (data l1 x s))"
  using assms by (simp add: add_listener_def unicast_def split: prod.splits sum.splits)

theorem add_listener_duplicate_rejected_witness:
  "listeners (snd (add_listener TagDispatcher_init (0::nat) recorder)) 0 = Some recorder
   \<and> add_listener (snd (add_listener TagDispatcher_init (0::nat) recorder)) 0 consuming
       = (Inl ValueError, snd (add_listener TagDispatcher_init 0 recorder))
   \<and> unicast (snd (add_listener (snd (add_listener TagDispatcher_init (0::nat) recorder)) 0 consuming))
        0 7 []
       = (Inr (), snd (add_listener TagDispatcher_init 0 recorder), [7])"
proof -
  let ?d1 = "snd (add_listener TagDispatcher_init (0::nat) recorder)"
  have h: "listeners ?d1 0 = Some recorder"
    by (simp add: add_listener_def TagDispatcher_init_def)
  have d: "data recorder 7 [] = (Inr False, [7])"
    by (simp add: recorder_def TagListener_def log_true_def)
  note t = add_listener_duplicate_rejected [OF h, of consuming 7 "[]"]
  from t have a: "add_listener ?d1 0 consuming = (Inl ValueError, ?d1)"
    by blast
  from t have "unicast (snd (add_listener ?d1 0 consuming)) 0 7 [] =
      ((case fst (data recorder 7 []) of Inl exc \<Rightarrow> Inl exc | Inr r \<Rightarrow> Inr ()),
       ?d1, snd (data recorder 7 []))"
    by (rule conjunct2 [THEN conjunct2])
  then have u: "unicast (snd (add_listener ?d1 0 consuming)) 0 7 [] = (Inr (), ?d1, [7])"
    by (simp only: d fst_conv snd_conv sum.case)
  from h a u show ?thesis by blast
qed

text \<open>
  C3, at the input where the code fails.  The claim has \<open>unicast\<close> remove a listener
  whose \<open>data\<close> method returns a truthy value, so that a second \<open>unicast\<close> on the
  tag raises \<open>KeyError\<close>.  The code does not: after \<open>add_callback\<close> of a callback
  that returns \<open>True\<close> (the \<open>TagListener\<close> around it returns \<open>None\<close>), and as well
  after \<open>add_listener\<close> of an object whose \<open>data\<close> method itself returns \<open>True\<close>,
  the first \<open>unicast\<close> on the tag delivers and leaves the listener registered, and the
  second \<open>unicast\<close> succeeds and calls the callback a second time.
\<close>

theorem unicast_keeps_consumed_listener:
  "fst (log_true 7 []) = Inr True
   \<and> unicast callback_at_0 0 7 [] = (Inr (), callback_at_0, [7])
   \<and> listeners callback_at_0 0 = Some recorder
   \<and> unicast callback_at_0 0 8 [7] = (Inr (), callback_at_0, [8, 7])
   \<and> fst (data consuming 7 []) = Inr True
   \<and> unicast consuming_at_0 0 7 [] = (Inr (), consuming_at_0, [7])
   \<and> listeners consuming_at_0 0 = Some consuming
   \<and> unicast consuming_at_0 0 8 [7] = (Inr (), consuming_at_0, [8, 7])"
proof -
  have h0: "listeners consuming_at_0 0 = Some consuming"
    by (simp add: consuming_at_0_def add_listener_def TagDispatcher_init_def)
  have h1: "listeners callback_at_0 0 = Some recorder"
    by (simp add: callback_at_0_def add_callback_def add_listener_def TagDispatcher_init_def
        recorder_def)
  have u0: "unicast consuming_at_0 0 x s = (Inr (), consuming_at_0, x # s)" for x s
    by (simp add: unicast_def h0 consuming_def log_true_def)
  have u1: "unicast callback_at_0 0 x s = (Inr (), callback_at_0, x # s)" for x s
    by (simp add: unicast_def h1 recorder_def TagListener_def log_true_def)
  have d: "fst (data consuming 7 []) = Inr True" "fst (log_true 7 []) = Inr True"
    by (simp_all add: consuming_def log_true_def)
  from h0 h1 u0 u1 d show ?thesis by simp
qed

section \<open>Properties of the capability cache\<close>

subsection \<open>Helper facts\<close>

text \<open>
  What \<open>lookup_wait\<close> gives when it returns at all: never a \<open>ValueError\<close>, and the
  future it found registered for the key was not one that is done with a \<open>ValueError\<close>.
\<close>

lemma lookup_wait_result:
  assumes "lookup_wait w k = Some y"
  shows "y \<noteq> Raise ValueError
       \<and> (\<forall>fut. lookup_cache (cache w) k = Some fut \<longrightarrow> fut_state_of w fut \<noteq> Done (Inl ValueError))"
proof (rule lookup_wait.raw_induct
    [where P = "\<lambda>w k y. y \<noteq> Raise ValueError
       \<and> (\<forall>fut. lookup_cache (cache w) k = Some fut \<longrightarrow> fut_state_of w fut \<noteq> Done (Inl ValueError))",
     OF _ assms])
  fix f w k y
  assume ih: "\<And>w k y. f w k = Some y \<Longrightarrow> y \<noteq> Raise ValueError
       \<and> (\<forall>fut. lookup_cache (cache w) k = Some fut \<longrightarrow> fut_state_of w fut \<noteq> Done (Inl ValueError))"
    and body: "(case lookup_cache (cache w) k of
        None \<Rightarrow> Some (Raise KeyError)
      | Some fut \<Rightarrow>
          (case fut_state_of w fut of
             Pending \<Rightarrow> Some (Suspend fut)
           | Done r \<Rightarrow>
               (case r of
                  Inr result \<Rightarrow> Some (Return result)
                | Inl exc \<Rightarrow> if exc = ValueError then f w k else Some (Raise exc)))) = Some y"
  show "y \<noteq> Raise ValueError
       \<and> (\<forall>fut. lookup_cache (cache w) k = Some fut \<longrightarrow> fut_state_of w fut \<noteq> Done (Inl ValueError))"
    using body ih [of w k y]
    by (auto split: option.splits fut_state.splits sum.splits if_splits)
qed

lemma w_paths_simps:
  "memory_overlay (cache w_paths) = Map.empty"
  "system_db_path (cache w_paths) = Some [''sys'']"
  "user_db_path (cache w_paths) = Some [''usr'']"
  "lookup_cache (cache w_paths) = Map.empty"
  by (simp_all add: w_paths_def world_init_def Cache_init_def set_user_db_path_def set_system_db_path_def)

subsection \<open>The store tiers\<close>

text \<open>
  C8, as the code has it.  \<open>lookup_in_database\<close> consults the memory overlay, then the
  system store, then the user store.  A key in the memory overlay is returned with no
  file opened, and \<open>lookup\<close> then returns it at once (no suspension, no query).  A
  store that is not configured or whose file cannot be opened (\<open>OSError\<close> at
  \<open>open\<close>) is a miss at that tier and the next tier is consulted.  Once a file has
  been opened, what the reader makes of it is the outcome of the call, be it the entry or
  the exception the reader raises, and no further tier is consulted: the system store's
  file decides before the user store is touched, the user store's file after a miss in
  the system store.  When all three tiers miss, the call raises \<open>KeyError\<close>; a
  \<open>KeyError\<close> of the call means that all three tiers missed, or that the reader raised
  \<open>KeyError\<close> on a file that was opened.
\<close>

theorem lookup_in_database_tiers:
  "(memory_overlay (cache w) k = Some r \<longrightarrow>
      lookup_in_database rsx (cache w) fs k = (Inr r, [])
      \<and> lookup rsx w fs k = Some (Return r))
   \<and> (memory_overlay (cache w) k = None \<and> system_db_path (cache w) = Some sp
        \<and> fs (sp @ path k) = Some b \<longrightarrow>
      lookup_in_database rsx (cache w) fs k = (rsx b, [sp @ path k]))
   \<and> (memory_overlay (cache w) k = None \<and> store_miss fs (system_db_path (cache w)) k
        \<and> user_db_path (cache w) = Some up \<and> fs (up @ path k) = Some b \<longrightarrow>
      lookup_in_database rsx (cache w) fs k =
        (rsx b, (case system_db_path (cache w) of None \<Rightarrow> [] | Some sp \<Rightarrow> [sp @ path k])
                @ [up @ path k]))
   \<and> (memory_overlay (cache w) k = None \<and> store_miss fs (system_db_path (cache w)) k
        \<and> store_miss fs (user_db_path (cache w)) k \<longrightarrow>
      fst (lookup_in_database rsx (cache w) fs k) = Inl KeyError)
   \<and> (fst (lookup_in_database rsx (cache w) fs k) = Inl KeyError \<longrightarrow>
      (memory_overlay (cache w) k = None \<and> store_miss fs (system_db_path (cache w)) k
       \<and> store_miss fs (user_db_path (cache w)) k)
      \<or> (\<exists>p bytes. (system_db_path (cache w) = Some p \<or> user_db_path (cache w) = Some p)
            \<and> fs (p @ path k) = Some bytes \<and> rsx bytes = Inl KeyError))"
  by (auto simp: lookup_in_database_def read_db_file_def lookup_def store_miss_def Let_def
      split: option.splits)

theorem lookup_in_database_tiers_witness:
  "memory_overlay (cache w_mem) k1 = Some info_ab
   \<and> lookup_in_database parse_ex (cache w_mem) fs_both k1 = (Inr info_ab, [])
   \<and> lookup parse_ex w_mem fs_both k1 = Some (Return info_ab)
   \<and> memory_overlay (cache w_paths) k1 = None
   \<and> system_db_path (cache w_paths) = Some [''sys'']
   \<and> fs_both ([''sys''] @ path k1) = Some ''s''
   \<and> lookup_in_database parse_ex (cache w_paths) fs_both k1
       = (parse_ex ''s'', [[''sys''] @ path k1])
   \<and> store_miss fs_usr (system_db_path (cache w_paths)) k1
   \<and> user_db_path (cache w_paths) = Some [''usr'']
   \<and> fs_usr ([''usr''] @ path k1) = Some ''u''
   \<and> lookup_in_database parse_ex (cache w_paths) fs_usr k1
       = (parse_ex ''u'', [[''sys''] @ path k1, [''usr''] @ path k1])
   \<and> store_miss Map.empty (system_db_path (cache w_paths)) k1
   \<and> store_miss Map.empty (user_db_path (cache w_paths)) k1
   \<and> fst (lookup_in_database parse_ex (cache w_paths) Map.empty k1) = Inl KeyError"
proof -
  have m: "memory_overlay (cache w_mem) k1 = Some info_ab"
    by (simp add: w_mem_def add_cache_entry_def Let_def split: option.splits)
  have n: "memory_overlay (cache w_paths) k1 = None"
    and s: "system_db_path (cache w_paths) = Some [''sys'']"
    and u: "user_db_path (cache w_paths) = Some [''usr'']"
    by (simp_all add: w_paths_simps)
  have f1: "fs_both ([''sys''] @ path k1) = Some ''s''"
    by (simp add: fs_both_def k1_def)
  have f2: "fs_usr ([''usr''] @ path k1) = Some ''u''"
    by (simp add: fs_usr_def k1_def)
  have m1: "store_miss fs_usr (system_db_path (cache w_paths)) k1"
    by (simp add: store_miss_def s fs_usr_def k1_def)
  have m2: "store_miss Map.empty (system_db_path (cache w_paths)) k1"
    and m3: "store_miss Map.empty (user_db_path (cache w_paths)) k1"
    by (simp_all add: store_miss_def s u)
  note a = lookup_in_database_tiers [of w_mem k1 info_ab parse_ex fs_both]
  note b = lookup_in_database_tiers [of w_paths k1 _ parse_ex fs_both "[''sys'']" "''s''"]
  note c = lookup_in_database_tiers [of w_paths k1 _ parse_ex fs_usr _ "''u''" "[''usr'']"]
  note d = lookup_in_database_tiers [of w_paths k1 _ parse_ex Map.empty]
  from a m have a1: "lookup_in_database parse_ex (cache w_mem) fs_both k1 = (Inr info_ab, [])"
    and a2: "lookup parse_ex w_mem fs_both k1 = Some (Return info_ab)"
    by blast+
  from b n s f1 have b1: "lookup_in_database parse_ex (cache w_paths) fs_both k1
       = (parse_ex ''s'', [[''sys''] @ path k1])"
    by blast
  from c n m1 u f2 have "lookup_in_database parse_ex (cache w_paths) fs_usr k1 =
        (parse_ex ''u'', (case system_db_path (cache w_paths) of None \<Rightarrow> [] | Some sp \<Rightarrow> [sp @ path k1])
                @ [[''usr''] @ path k1])"
    by blast
  then have c1: "lookup_in_database parse_ex (cache w_paths) fs_usr k1
       = (parse_ex ''u'', [[''sys''] @ path k1, [''usr''] @ path k1])"
    by (simp add: s)
  from d n m2 m3 have d1: "fst (lookup_in_database parse_ex (cache w_paths) Map.empty k1) = Inl KeyError"
    by blast
  from m a1 a2 n s f1 b1 m1 u f2 c1 m2 m3 d1 show ?thesis by blast
qed

text \<open>
  The claim C8 as the spec states it fails: a read failure after the file was opened is
  not a miss.  The system store's file for \<open>k1\<close> opens and the reader fails on it (with
  \<open>ParseError\<close> for \<open>parse_ex\<close>, with \<open>OSError\<close> for \<open>read_ex\<close>), the user
  store holds a file for \<open>k1\<close> that both readers read, and the call raises the reader's
  exception with only the system store's file opened.
\<close>

theorem lookup_in_database_read_failure_counterexample:
  "fs_corrupt ([''sys''] @ path k1) = Some ''bad''
   \<and> fs_corrupt ([''usr''] @ path k1) = Some ''u''
   \<and> parse_ex ''bad'' = Inl ParseError
   \<and> read_ex ''bad'' = Inl OSError
   \<and> parse_ex ''u'' = Inr \<lparr> features = [''u''], captured_events = [] \<rparr>
   \<and> read_ex ''u'' = Inr \<lparr> features = [''u''], captured_events = [] \<rparr>
   \<and> lookup_in_database parse_ex (cache w_paths) fs_corrupt k1
       = (Inl ParseError, [[''sys'', ''sha-1_ab.xml'']])
   \<and> lookup_in_database read_ex (cache w_paths) fs_corrupt k1
       = (Inl OSError, [[''sys'', ''sha-1_ab.xml'']])"
  by (simp add: lookup_in_database_def read_db_file_def w_paths_simps fs_corrupt_def k1_def
      parse_ex_def read_ex_def)

subsection \<open>Waiting for a pending lookup\<close>

lemma lookup_resume_not_ValueError:
  "lookup_resume w k fut \<noteq> Some (Raise ValueError)"
  using lookup_wait_result [of w k "Raise ValueError"]
  by (auto simp: lookup_resume_def split: fut_state.splits sum.splits)

lemma w_pending_simps:
  "lookup_cache (cache w_pending) = [k1 \<mapsto> 0]"
  "memory_overlay (cache w_pending) = Map.empty"
  "system_db_path (cache w_pending) = None"
  "user_db_path (cache w_pending) = None"
  "fut_state_of w_pending f = Pending"
  "state (futures w_pending f) = Pending"
  "callbacks (futures w_pending f) = (if f = 0 then [k1] else [])"
  "next_future w_pending = 1"
  "ready w_pending = []"
  "executor w_pending = []"
  by (simp_all add: w_pending_def create_query_future_def new_future_def add_done_callback_def
      world_init_def Cache_init_def fut_state_of_def)

lemma w_failed_simps:
  "lookup_cache (cache w_failed) = Map.empty"
  "fut_state_of w_failed f = (if f = 0 then Done (Inl ValueError) else Pending)"
  "state (futures w_failed f) = (if f = 0 then Done (Inl ValueError) else Pending)"
  "next_future w_failed = 1"
  "ready w_failed = []"
  by (auto simp add: w_failed_def run_ready_def set_exception_def settle_def w_pending_simps
      fut_state_of_def erase_future_def)

lemma w_retry_simps:
  "lookup_cache (cache w_retry) = [k1 \<mapsto> 1]"
  "fut_state_of w_retry f = (if f = 0 then Done (Inl ValueError) else Pending)"
  by (auto simp add: w_retry_def create_query_future_def new_future_def add_done_callback_def
      fut_state_of_def w_failed_simps)

text \<open>
  Where the loop of \<open>lookup\<close> returns or suspends.  For a key that no store tier
  resolves, \<open>lookup\<close> goes to the future registered
  for the key: it suspends on it when it is pending, and raises \<open>KeyError\<close> when none
  is registered.  When the coroutine goes on after the future it waited for was failed
  with \<open>ValueError\<close>, it reads the dict of registered futures again, in the world as it
  is then: with no future registered for the key it raises \<open>KeyError\<close>, with a pending
  one registered it suspends on that one.  Neither at its start nor when it goes on does
  \<open>lookup\<close> raise \<open>ValueError\<close>.
\<close>

theorem lookup_waits_and_retries:
  assumes "fst (lookup_in_database rsx (cache w) fs k) = Inl KeyError"
  shows "lookup rsx w fs k = lookup_wait w k
   \<and> (lookup_cache (cache w) k = Some fut \<and> fut_state_of w fut = Pending \<longrightarrow>
        lookup rsx w fs k = Some (Suspend fut))
   \<and> (lookup_cache (cache w) k = None \<longrightarrow> lookup rsx w fs k = Some (Raise KeyError))
   \<and> (fut_state_of w' fut = Done (Inl ValueError) \<longrightarrow>
        lookup_resume w' k fut = lookup_wait w' k
        \<and> (lookup_cache (cache w') k = None \<longrightarrow> lookup_resume w' k fut = Some (Raise KeyError))
        \<and> (lookup_cache (cache w') k = Some fut' \<and> fut_state_of w' fut' = Pending \<longrightarrow>
             lookup_resume w' k fut = Some (Suspend fut')))
   \<and> lookup rsx w fs k \<noteq> Some (Raise ValueError)
   \<and> lookup_resume w' k fut \<noteq> Some (Raise ValueError)"
proof -
  have a: "lookup rsx w fs k = lookup_wait w k"
    using assms by (simp add: lookup_def)
  have b: "lookup_wait v k = Some (Suspend g)"
    if "lookup_cache (cache v) k = Some g" "fut_state_of v g = Pending" for v g
    using that by (subst lookup_wait.simps) simp
  have c: "lookup_wait v k = Some (Raise KeyError)" if "lookup_cache (cache v) k = None" for v
    using that by (subst lookup_wait.simps) simp
  have d: "lookup_resume w' k fut = lookup_wait w' k"
    if "fut_state_of w' fut = Done (Inl ValueError)"
    using that by (simp add: lookup_resume_def)
  have e: "lookup_wait w k \<noteq> Some (Raise ValueError)"
    using lookup_wait_result [of w k "Raise ValueError"] by blast
  show ?thesis
    using a b c d e lookup_resume_not_ValueError [of w' k fut] by auto
qed

theorem lookup_waits_and_retries_witness:
  "fst (lookup_in_database parse_ex (cache w_pending) Map.empty k1) = Inl KeyError
   \<and> lookup_cache (cache w_pending) k1 = Some 0
   \<and> fut_state_of w_pending 0 = Pending
   \<and> lookup parse_ex w_pending Map.empty k1 = Some (Suspend 0)
   \<and> fut_state_of w_failed 0 = Done (Inl ValueError)
   \<and> lookup_cache (cache w_failed) k1 = None
   \<and> lookup_resume w_failed k1 0 = Some (Raise KeyError)
   \<and> fut_state_of w_retry 0 = Done (Inl ValueError)
   \<and> lookup_cache (cache w_retry) k1 = Some 1
   \<and> fut_state_of w_retry 1 = Pending
   \<and> lookup_resume w_retry k1 0 = Some (Suspend 1)"
proof -
  have h: "fst (lookup_in_database parse_ex (cache w_pending) Map.empty k1) = Inl KeyError"
    by (simp add: lookup_in_database_def read_db_file_def w_pending_simps)
  have p1: "lookup_cache (cache w_pending) k1 = Some 0" and p2: "fut_state_of w_pending 0 = Pending"
    by (simp_all add: w_pending_simps)
  have f1: "fut_state_of w_failed 0 = Done (Inl ValueError)"
    and f2: "lookup_cache (cache w_failed) k1 = None"
    by (simp_all add: w_failed_simps)
  have r1: "fut_state_of w_retry 0 = Done (Inl ValueError)"
    and r2: "lookup_cache (cache w_retry) k1 = Some 1"
    and r3: "fut_state_of w_retry 1 = Pending"
    by (simp_all add: w_retry_simps)
  note a = lookup_waits_and_retries [OF h, of 0 w_failed 0]
  note b = lookup_waits_and_retries [OF h, of 0 w_retry 1]
  from a p1 p2 have c1: "lookup parse_ex w_pending Map.empty k1 = Some (Suspend 0)"
    by blast
  from a f1 f2 have c2: "lookup_resume w_failed k1 0 = Some (Raise KeyError)"
    by blast
  from b r1 r2 r3 have c3: "lookup_resume w_retry k1 0 = Some (Suspend 1)"
    by blast
  from h p1 p2 c1 f1 f2 c2 r1 r2 r3 c3 show ?thesis by blast
qed

text \<open>
  How the service itself gets to \<open>w_settled\<close>: \<open>lookup_info\<close> for \<open>k1\<close>, which misses
  everywhere, registers the future and waits for the query; the answer \<open>info_x\<close> does
  not verify, and \<open>query_and_cache\<close> fails the future and returns.
\<close>

lemma w_settled_reached:
  "lookup_info parse_ex world_init Map.empty ''peer'' [k1] =
     Some (Suspend (InQuery ''peer'' k1 0), w_pending)"
  "lookup_info_resume parse_ex verify_ex w_pending Map.empty ''peer'' [k1]
     (InQuery ''peer'' k1 0) (Inr info_x) = Some (Return info_x, w_settled)"
proof -
  have m: "lookup parse_ex world_init Map.empty k1 = Some (Raise KeyError)"
    by (subst lookup_def, subst lookup_wait.simps)
       (simp add: lookup_in_database_def read_db_file_def world_init_def Cache_init_def)
  have q: "lookup_info_query world_init ''peer'' [k1] = (Suspend (InQuery ''peer'' k1 0), w_pending)"
    by (simp add: lookup_info_query_def query_and_cache_def w_pending_def
        create_query_future_def new_future_def world_init_def Let_def)
  show "lookup_info parse_ex world_init Map.empty ''peer'' [k1] =
     Some (Suspend (InQuery ''peer'' k1 0), w_pending)"
    by (simp add: lookup_info_def m q)
  have b: "\<not> verify_ex k1 info_x"
    by (simp add: verify_ex_def k1_def info_x_def)
  have c: "set_exception w_pending 0 ValueError = (Inr (), w_settled)"
    by (simp add: w_settled_def set_exception_def settle_def w_pending_simps)
  show "lookup_info_resume parse_ex verify_ex w_pending Map.empty ''peer'' [k1]
     (InQuery ''peer'' k1 0) (Inr info_x) = Some (Return info_x, w_settled)"
    by (simp add: lookup_info_resume_def query_and_cache_resume_def b c)
qed

text \<open>
  C6, at the input where the code fails.  The claim (and the docstring of \<open>lookup\<close>:
  ``If there are no pending futures, KeyError is raised'') has \<open>lookup\<close> raise
  \<open>KeyError\<close> whenever no pending future is registered for a key that no store tier
  resolves.  The code does not when the future registered for the key is done with
  \<open>ValueError\<close> and its \<open>_erase_future\<close> call is still queued: \<open>yield from\<close> on the
  done future raises at once, the \<open>ValueError\<close> is caught, and the loop reads the same
  future again, for ever and without suspending, so the queued call never runs.  Neither a
  \<open>lookup\<close> that starts in such a world returns, nor one that goes on in it after
  waiting for that future.
\<close>

theorem lookup_spins_on_failed_future:
  assumes "fst (lookup_in_database rsx (cache w) fs k) = Inl KeyError"
    and "lookup_cache (cache w) k = Some fut"
    and "fut_state_of w fut = Done (Inl ValueError)"
  shows "lookup rsx w fs k = None
       \<and> lookup_resume w k fut = None
       \<and> lookup rsx w fs k \<noteq> Some (Raise KeyError)"
proof -
  have n: "lookup_wait w k = None"
    using assms(2,3) lookup_wait_result [of w k] by (cases "lookup_wait w k") auto
  from n assms(1) have a: "lookup rsx w fs k = None"
    by (simp add: lookup_def)
  from n assms(3) have b: "lookup_resume w k fut = None"
    by (simp add: lookup_resume_def)
  from a b show ?thesis by simp
qed

theorem lookup_spins_on_failed_future_witness:
  "lookup_info parse_ex world_init Map.empty ''peer'' [k1] =
     Some (Suspend (InQuery ''peer'' k1 0), w_pending)
   \<and> lookup_info_resume parse_ex verify_ex w_pending Map.empty ''peer'' [k1]
        (InQuery ''peer'' k1 0) (Inr info_x) = Some (Return info_x, w_settled)
   \<and> fst (lookup_in_database parse_ex (cache w_settled) Map.empty k1) = Inl KeyError
   \<and> lookup_cache (cache w_settled) k1 = Some 0
   \<and> fut_state_of w_settled 0 = Done (Inl ValueError)
   \<and> ready w_settled = [(k1, 0)]
   \<and> lookup parse_ex w_settled Map.empty k1 = None
   \<and> lookup_resume w_settled k1 0 = None"
proof -
  have c: "cache w_settled = cache w_pending"
    and r: "ready w_settled = [(k1, 0)]"
    and f: "fut_state_of w_settled 0 = Done (Inl ValueError)"
    by (simp_all add: w_settled_def set_exception_def settle_def w_pending_simps fut_state_of_def)
  have h: "fst (lookup_in_database parse_ex (cache w_settled) Map.empty k1) = Inl KeyError"
    by (simp add: c lookup_in_database_def read_db_file_def w_pending_simps)
  have l: "lookup_cache (cache w_settled) k1 = Some 0"
    by (simp add: c w_pending_simps)
  from w_settled_reached h l f r lookup_spins_on_failed_future [OF h l f]
  show ?thesis by blast
qed

subsection \<open>The registry of pending lookups\<close>

lemma w_two_simps:
  "lookup_cache (cache w_two) = [k1 \<mapsto> 1]"
  "fut_state_of w_two f = Pending"
  "callbacks (futures w_two f) = (if f = 0 \<or> f = 1 then [k1] else [])"
  "ready w_two = []"
  by (auto simp add: w_two_def create_query_future_def new_future_def add_done_callback_def
      fut_state_of_def w_pending_simps)

text \<open>
  C7.  The dict \<open>_lookup_cache\<close> holds at most one future per key:
  \<open>create_query_future\<close> makes a new pending future whose only done callback is the
  \<open>_erase_future\<close> of its key, and puts it in the place of whatever was registered for
  the key.  \<open>_erase_future\<close> removes the entry of the key when and only when the entry
  is the very future it was called with.  Settling such a future queues that call once;
  settling it a second time raises and queues nothing.  Once the event loop has run the
  queue, the entry of the key is gone if it was this future, and the dict is as it was if
  another (newer) future is registered for the key; the queue is then empty, so the call
  does not run again.
\<close>

theorem pending_future_registry:
  "fst (create_query_future w k) = next_future w
   \<and> lookup_cache (cache (snd (create_query_future w k))) = (lookup_cache (cache w))(k \<mapsto> next_future w)
   \<and> fut_state_of (snd (create_query_future w k)) (next_future w) = Pending
   \<and> callbacks (futures (snd (create_query_future w k)) (next_future w)) = [k]
   \<and> lookup_cache (erase_future c k fut) =
        (if lookup_cache c k = Some fut then (lookup_cache c)(k := None) else lookup_cache c)
   \<and> (fut_state_of w fut = Pending \<and> callbacks (futures w fut) = [k] \<longrightarrow>
        fst (settle w fut r) = Inr ()
        \<and> fut_state_of (snd (settle w fut r)) fut = Done r
        \<and> ready (snd (settle w fut r)) = ready w @ [(k, fut)]
        \<and> settle (snd (settle w fut r)) fut r' = (Inl InvalidStateError, snd (settle w fut r))
        \<and> (ready w = [] \<longrightarrow>
             ready (run_ready (snd (settle w fut r))) = []
             \<and> (lookup_cache (cache w) k = Some fut \<longrightarrow>
                  lookup_cache (cache (run_ready (snd (settle w fut r)))) = (lookup_cache (cache w))(k := None))
             \<and> (lookup_cache (cache w) k \<noteq> Some fut \<longrightarrow>
                  lookup_cache (cache (run_ready (snd (settle w fut r)))) = lookup_cache (cache w))))"
proof -
  have a: "fst (create_query_future w k) = next_future w"
    by (simp add: create_query_future_def new_future_def Let_def)
  have b: "lookup_cache (cache (snd (create_query_future w k))) = (lookup_cache (cache w))(k \<mapsto> next_future w)"
    by (simp add: create_query_future_def new_future_def add_done_callback_def)
  have c: "fut_state_of (snd (create_query_future w k)) (next_future w) = Pending"
    by (simp add: create_query_future_def new_future_def add_done_callback_def fut_state_of_def)
  have d: "callbacks (futures (snd (create_query_future w k)) (next_future w)) = [k]"
    by (simp add: create_query_future_def new_future_def add_done_callback_def)
  have e: "lookup_cache (erase_future c k fut) =
        (if lookup_cache c k = Some fut then (lookup_cache c)(k := None) else lookup_cache c)"
    by (simp add: erase_future_def split: option.splits)
  have f: "fst (settle w fut r) = Inr ()
        \<and> fut_state_of (snd (settle w fut r)) fut = Done r
        \<and> ready (snd (settle w fut r)) = ready w @ [(k, fut)]
        \<and> settle (snd (settle w fut r)) fut r' = (Inl InvalidStateError, snd (settle w fut r))"
    if "fut_state_of w fut = Pending" "callbacks (futures w fut) = [k]"
    using that by (simp add: settle_def fut_state_of_def)
  have g: "ready (run_ready (snd (settle w fut r))) = []"
    by (simp add: run_ready_def)
  have h: "lookup_cache (cache (run_ready (snd (settle w fut r)))) =
        (if lookup_cache (cache w) k = Some fut then (lookup_cache (cache w))(k := None)
         else lookup_cache (cache w))"
    if "fut_state_of w fut = Pending" "callbacks (futures w fut) = [k]" "ready w = []"
    using that
    by (simp add: settle_def fut_state_of_def run_ready_def erase_future_def split: option.splits)
  show ?thesis
    using a b c d e f g h by simp
qed

theorem pending_future_registry_witness:
  "fut_state_of w_two 0 = Pending \<and> callbacks (futures w_two 0) = [k1]
   \<and> fut_state_of w_two 1 = Pending \<and> callbacks (futures w_two 1) = [k1]
   \<and> ready w_two = []
   \<and> lookup_cache (cache w_two) k1 = Some 1
   \<and> fst (settle w_two 0 (Inl ValueError)) = Inr ()
   \<and> ready (snd (settle w_two 0 (Inl ValueError))) = [(k1, 0)]
   \<and> settle (snd (settle w_two 0 (Inl ValueError))) 0 (Inr info_ab)
        = (Inl InvalidStateError, snd (settle w_two 0 (Inl ValueError)))
   \<and> lookup_cache (cache (run_ready (snd (settle w_two 0 (Inl ValueError))))) k1 = Some 1
   \<and> lookup_cache (cache (run_ready (snd (settle w_two 1 (Inr info_ab))))) k1 = None"
proof -
  have p0: "fut_state_of w_two 0 = Pending" and c0: "callbacks (futures w_two 0) = [k1]"
    and p1: "fut_state_of w_two 1 = Pending" and c1: "callbacks (futures w_two 1) = [k1]"
    and r: "ready w_two = []" and l: "lookup_cache (cache w_two) k1 = Some 1"
    by (simp_all add: w_two_simps)
  have n: "lookup_cache (cache w_two) k1 \<noteq> Some 0"
    by (simp add: w_two_simps)
  note a = pending_future_registry [of w_two k1 _ 0 "Inl ValueError" "Inr info_ab"]
  note b = pending_future_registry [of w_two k1 _ 1 "Inr info_ab"]
  from a p0 c0 have a1: "fst (settle w_two 0 (Inl ValueError)) = Inr ()"
    and a2: "ready (snd (settle w_two 0 (Inl ValueError))) = ready w_two @ [(k1, 0)]"
    and a3: "settle (snd (settle w_two 0 (Inl ValueError))) 0 (Inr info_ab)
        = (Inl InvalidStateError, snd (settle w_two 0 (Inl ValueError)))"
    by blast+
  from a p0 c0 r n
  have "lookup_cache (cache (run_ready (snd (settle w_two 0 (Inl ValueError))))) = lookup_cache (cache w_two)"
    by blast
  then have a4: "lookup_cache (cache (run_ready (snd (settle w_two 0 (Inl ValueError))))) k1 = Some 1"
    by (simp add: l)
  from b p1 c1 r l
  have "lookup_cache (cache (run_ready (snd (settle w_two 1 (Inr info_ab))))) = (lookup_cache (cache w_two))(k1 := None)"
    by blast
  then have b1: "lookup_cache (cache (run_ready (snd (settle w_two 1 (Inr info_ab))))) k1 = None"
    by simp
  from a2 r have a2': "ready (snd (settle w_two 0 (Inl ValueError))) = [(k1, 0)]" by simp
  from p0 c0 p1 c1 r l a1 a2' a3 a4 b1 show ?thesis by blast
qed

subsection \<open>Resolving a peer's keys\<close>

lemma lookup_info_loop_all_miss:
  assumes "\<forall>k \<in> set rest. lookup rsx w fs k = Some (Raise KeyError)"
  shows "lookup_info_loop rsx w fs jid keys rest = Some (lookup_info_query w jid keys)"
  using assms by (induction rest) simp_all

lemma set_exception_pending:
  assumes "fut_state_of w fut = Pending"
  shows "fst (set_exception w fut exc) = Inr ()"
    and "fut_state_of (snd (set_exception w fut exc)) fut = Done (Inl exc)"
    and "cache (snd (set_exception w fut exc)) = cache w"
    and "executor (snd (set_exception w fut exc)) = executor w"
  using assms by (simp_all add: set_exception_def settle_def fut_state_of_def)

text \<open>
  C1, as the code has it.  When \<open>cache.lookup\<close> raises \<open>KeyError\<close> for every
  candidate key, \<open>lookup_info\<close> registers a new pending future for the first key and
  suspends in the query for that key's node.  When the answer is a description that the
  key does not verify, and the future is still pending, the rest of the coroutine fails
  the future with \<open>ValueError\<close>, writes nothing to the memory overlay, hands nothing to
  the executor, and \<open>lookup_info\<close> returns the unverified description to its caller.
\<close>

theorem lookup_info_verification_failure:
  assumes "\<forall>k \<in> set (first_key # others). lookup rsx w fs k = Some (Raise KeyError)"
    and "fut_state_of w' fut = Pending"
    and "\<not> verify first_key info"
  shows "lookup_info rsx w fs jid (first_key # others) =
           Some (Suspend (InQuery jid first_key (next_future w)),
                 snd (create_query_future w first_key))
       \<and> lookup_cache (cache (snd (create_query_future w first_key))) first_key = Some (next_future w)
       \<and> lookup_info_resume rsx verify w' fs' jid (first_key # others)
             (InQuery jid first_key fut) (Inr info) =
           Some (Return info, snd (set_exception w' fut ValueError))
       \<and> fut_state_of (snd (set_exception w' fut ValueError)) fut = Done (Inl ValueError)
       \<and> memory_overlay (cache (snd (set_exception w' fut ValueError))) = memory_overlay (cache w')
       \<and> executor (snd (set_exception w' fut ValueError)) = executor w'"
proof -
  have a: "lookup_info rsx w fs jid (first_key # others) =
      Some (lookup_info_query w jid (first_key # others))"
    unfolding lookup_info_def using assms(1) by (rule lookup_info_loop_all_miss)
  have b: "lookup_info_query w jid (first_key # others) =
      (Suspend (InQuery jid first_key (next_future w)), snd (create_query_future w first_key))"
    by (simp add: lookup_info_query_def query_and_cache_def create_query_future_def
        new_future_def Let_def)
  have c: "lookup_cache (cache (snd (create_query_future w first_key))) first_key = Some (next_future w)"
    by (simp add: create_query_future_def new_future_def add_done_callback_def)
  have d: "set_exception w' fut ValueError = (Inr (), snd (set_exception w' fut ValueError))"
    using set_exception_pending(1) [OF assms(2), of ValueError]
    by (metis prod.collapse)
  have e: "lookup_info_resume rsx verify w' fs' jid (first_key # others)
             (InQuery jid first_key fut) (Inr info) =
           Some (Return info, snd (set_exception w' fut ValueError))"
    using assms(3) by (simp add: lookup_info_resume_def query_and_cache_resume_def) (subst d, simp)
  show ?thesis
    using a b c e set_exception_pending(2-4) [OF assms(2), of ValueError] by simp
qed

theorem lookup_info_verification_failure_witness:
  "lookup parse_ex world_init Map.empty k1 = Some (Raise KeyError)
   \<and> lookup parse_ex world_init Map.empty k2 = Some (Raise KeyError)
   \<and> fut_state_of w_pending 0 = Pending
   \<and> \<not> verify_ex k1 info_x
   \<and> lookup_info parse_ex world_init Map.empty ''peer'' [k1, k2] =
        Some (Suspend (InQuery ''peer'' k1 0), w_pending)
   \<and> lookup_info_resume parse_ex verify_ex w_pending Map.empty ''peer'' [k1, k2]
        (InQuery ''peer'' k1 0) (Inr info_x) =
        Some (Return info_x, snd (set_exception w_pending 0 ValueError))
   \<and> fut_state_of (snd (set_exception w_pending 0 ValueError)) 0 = Done (Inl ValueError)
   \<and> memory_overlay (cache (snd (set_exception w_pending 0 ValueError))) k1 = None"
proof -
  have m: "lookup parse_ex world_init Map.empty k = Some (Raise KeyError)" for k
    by (subst lookup_def, subst lookup_wait.simps)
       (simp add: lookup_in_database_def read_db_file_def world_init_def Cache_init_def)
  then have h2: "\<forall>k \<in> set [k1, k2]. lookup parse_ex world_init Map.empty k = Some (Raise KeyError)"
    by simp
  have h3: "fut_state_of w_pending 0 = Pending"
    by (simp add: w_pending_simps)
  have h4: "\<not> verify_ex k1 info_x"
    by (simp add: verify_ex_def k1_def info_x_def)
  have n: "next_future world_init = 0"
    by (simp add: world_init_def)
  note t = lookup_info_verification_failure
    [where first_key = k1 and others = "[k2]" and rsx = parse_ex and w = world_init
       and fs = Map.empty and w' = w_pending and fut = 0 and verify = verify_ex
       and info = info_x and jid = "''peer''" and fs' = Map.empty,
     OF h2 h3 h4, unfolded n, folded w_pending_def]
  from t have c1: "lookup_info parse_ex world_init Map.empty ''peer'' [k1, k2] =
        Some (Suspend (InQuery ''peer'' k1 0), w_pending)"
    and c2: "lookup_info_resume parse_ex verify_ex w_pending Map.empty ''peer'' [k1, k2]
        (InQuery ''peer'' k1 0) (Inr info_x) =
        Some (Return info_x, snd (set_exception w_pending 0 ValueError))"
    and c3: "fut_state_of (snd (set_exception w_pending 0 ValueError)) 0 = Done (Inl ValueError)"
    and c4: "memory_overlay (cache (snd (set_exception w_pending 0 ValueError))) = memory_overlay (cache w_pending)"
    by blast+
  from c4 have c4': "memory_overlay (cache (snd (set_exception w_pending 0 ValueError))) k1 = None"
    by (simp add: w_pending_simps)
  from m [of k1] m [of k2] h3 h4 c1 c2 c3 c4' show ?thesis by blast
qed

text \<open>
  The claim C1 as the spec states it fails: for the key \<open>k1\<close>, which misses everywhere,
  and the answer \<open>info_x\<close>, which \<open>k1\<close> does not verify, \<open>lookup_info\<close> does not
  raise: it returns \<open>info_x\<close>.
\<close>

theorem lookup_info_returns_unverified_counterexample:
  "lookup_info parse_ex world_init Map.empty ''peer'' [k1] =
        Some (Suspend (InQuery ''peer'' k1 0), w_pending)
   \<and> verify_ex k1 info_x = False
   \<and> lookup_info_resume parse_ex verify_ex w_pending Map.empty ''peer'' [k1]
        (InQuery ''peer'' k1 0) (Inr info_x) =
        Some (Return info_x, snd (set_exception w_pending 0 ValueError))"
proof -
  have m: "lookup parse_ex world_init Map.empty k = Some (Raise KeyError)" for k
    by (subst lookup_def, subst lookup_wait.simps)
       (simp add: lookup_in_database_def read_db_file_def world_init_def Cache_init_def)
  have q: "lookup_info_query world_init ''peer'' [k1] = (Suspend (InQuery ''peer'' k1 0), w_pending)"
    by (simp add: lookup_info_query_def query_and_cache_def w_pending_def
        create_query_future_def new_future_def world_init_def Let_def)
  have a: "lookup_info parse_ex world_init Map.empty ''peer'' [k1] =
        Some (Suspend (InQuery ''peer'' k1 0), w_pending)"
    by (simp add: lookup_info_def m q)
  have b: "verify_ex k1 info_x = False"
    by (simp add: verify_ex_def k1_def info_x_def)
  have c: "set_exception w_pending 0 ValueError = (Inr (), snd (set_exception w_pending 0 ValueError))"
    by (simp add: set_exception_def settle_def w_pending_simps)
  have d: "lookup_info_resume parse_ex verify_ex w_pending Map.empty ''peer'' [k1]
        (InQuery ''peer'' k1 0) (Inr info_x) =
        Some (Return info_x, snd (set_exception w_pending 0 ValueError))"
    by (simp add: lookup_info_resume_def query_and_cache_resume_def b) (subst c, simp)
  from a b d show ?thesis by blast
qed

text \<open>
  C5, at the input where the code leaves the future unsettled.  When the query raises,
  \<open>query_and_cache\<close> raises the same exception and the world is as it was: neither
  \<open>set_result\<close> nor \<open>set_exception\<close> was called on the future.  In the example the
  future of \<open>k1\<close> is still registered and pending after \<open>lookup_info\<close> has raised
  \<open>TransportError\<close>, and a later \<open>lookup\<close> of \<open>k1\<close> suspends on it.
\<close>

theorem query_failure_leaves_future_pending:
  "query_and_cache_resume verify w k fut (Inl exc) = (Raise exc, w)
   \<and> lookup_info_resume rsx verify w fs jid keys (InQuery jid k fut) (Inl exc) = Some (Raise exc, w)
   \<and> lookup_cache (cache w_pending) k1 = Some 0
   \<and> fut_state_of w_pending 0 = Pending
   \<and> lookup_info_resume parse_ex verify_ex w_pending Map.empty ''peer'' [k1]
        (InQuery ''peer'' k1 0) (Inl TransportError) = Some (Raise TransportError, w_pending)
   \<and> lookup parse_ex w_pending Map.empty k1 = Some (Suspend 0)"
proof -
  have "lookup parse_ex w_pending Map.empty k1 = Some (Suspend 0)"
    by (subst lookup_def, subst lookup_wait.simps)
       (simp add: lookup_in_database_def read_db_file_def w_pending_simps)
  then show ?thesis
    by (simp add: query_and_cache_resume_def lookup_info_resume_def w_pending_simps)
qed

text \<open>
  C10.  \<open>lookup_info\<close> with an empty list of keys raises \<open>IndexError\<close> (not
  \<open>KeyError\<close>) and changes nothing: the loop has nothing to do and \<open>keys[0]\<close> fails.
  \<open>handle_inbound_presence\<close> starts \<open>lookup_info\<close> only with a list that is not
  empty, the keys extracted for the schemes that are enabled, and with the sender of the
  presence; when no key is extracted it starts nothing.
\<close>

theorem lookup_info_empty_keys:
  "lookup_info rsx w fs jid [] = Some (Raise IndexError, w)
   \<and> (snd (handle_inbound_presence extract_keys390 extract_keys115 xep390 xep115 pres)
         = Some (jid', keys) \<longrightarrow>
        keys \<noteq> [] \<and> jid' = from' pres
        \<and> keys = (if xep390 then extract_keys390 pres else [])
                 @ (if xep115 then extract_keys115 pres else []))
   \<and> ((if xep390 then extract_keys390 pres else []) @ (if xep115 then extract_keys115 pres else []) = []
        \<longrightarrow> handle_inbound_presence extract_keys390 extract_keys115 xep390 xep115 pres = (pres, None))"
  by (auto simp: lookup_info_def lookup_info_query_def handle_inbound_presence_def Let_def
      split: if_splits)

theorem lookup_info_empty_keys_witness:
  "lookup_info parse_ex world_init Map.empty ''peer'' [] = Some (Raise IndexError, world_init)
   \<and> snd (handle_inbound_presence (extract_ex k2) (extract_ex k1) True True pres_caps)
        = Some (''peer@example/r'', [k2, k1])
   \<and> [k2, k1] \<noteq> []
   \<and> (if True then extract_ex k2 pres_plain else []) @ (if True then extract_ex k1 pres_plain else []) = []
   \<and> handle_inbound_presence (extract_ex k2) (extract_ex k1) True True pres_plain = (pres_plain, None)"
proof -
  have h1: "snd (handle_inbound_presence (extract_ex k2) (extract_ex k1) True True pres_caps)
        = Some (''peer@example/r'', [k2, k1])"
    by (simp add: handle_inbound_presence_def extract_ex_def pres_caps_def)
  have h2: "(if True then extract_ex k2 pres_plain else []) @ (if True then extract_ex k1 pres_plain else []) = []"
    by (simp add: extract_ex_def pres_plain_def)
  note a = lookup_info_empty_keys [of parse_ex world_init Map.empty "''peer''"
      "extract_ex k2" "extract_ex k1" True True pres_caps "''peer@example/r''" "[k2, k1]"]
  note b = lookup_info_empty_keys [of parse_ex world_init Map.empty "''peer''"
      "extract_ex k2" "extract_ex k1" True True pres_plain]
  from a have c1: "lookup_info parse_ex world_init Map.empty ''peer'' [] = Some (Raise IndexError, world_init)"
    by blast
  from a h1 have c2: "[k2, k1] \<noteq> ([] :: key list)"
    by blast
  from b h2 have c3: "handle_inbound_presence (extract_ex k2) (extract_ex k1) True True pres_plain = (pres_plain, None)"
    by blast
  from c1 h1 c2 h2 c3 show ?thesis by blast
qed

subsection \<open>Writing an entry back\<close>

text \<open>
  C4, at the input where the code fails.  With a user store configured,
  \<open>add_cache_entry\<close> puts the entry in the memory overlay and hands the executor the
  call \<open>writeback(path, captured_events)\<close>, two arguments.  \<open>writeback\<close> takes four:
  the call raises \<open>TypeError\<close> and the file system is as it was, whatever the
  generator, the escaping and the temporary name are.
\<close>

theorem add_cache_entry_writeback_arity:
  "memory_overlay (cache (add_cache_entry w_paths k1 info_ab)) k1 = Some info_ab
   \<and> executor (add_cache_entry w_paths k1 info_ab)
       = [[PathV [''usr'', ''sha-1_ab.xml''], EventsV [''ev_a'', ''ev_b'']]]
   \<and> call_writeback quote generate tmpname
        [PathV [''usr'', ''sha-1_ab.xml''], EventsV [''ev_a'', ''ev_b'']] fs = (Inl TypeError, fs)"
proof -
  have e: "executor w_paths = []"
    by (simp add: w_paths_def world_init_def)
  show ?thesis
    by (simp add: add_cache_entry_def Let_def w_paths_simps e call_writeback_def k1_def info_ab_def)
qed

section \<open>Properties of the service's key set\<close>

lemma fold_unmount:
  "fold (\<lambda>k s. unmount_node s (node k)) ks s =
     s\<lparr> mounts := fold (\<lambda>k m. m(node k := None)) ks (mounts s),
        trace := trace s @ map (\<lambda>k. Unmount (node k)) ks \<rparr>"
  by (induction ks arbitrary: s) (simp_all add: unmount_node_def)

lemma fold_mount:
  "fold (\<lambda>k s. mount_node s (node k) info) ks s =
     s\<lparr> mounts := fold (\<lambda>k m. m(node k \<mapsto> info)) ks (mounts s),
        trace := trace s @ map (\<lambda>k. Mount (node k)) ks \<rparr>"
  by (induction ks arbitrary: s) (simp_all add: mount_node_def)

lemma service_115_simps:
  "current_keys service_115 = [(Caps115, [k1])]"
  "xep115_support service_115 = True"
  "xep390_support service_115 = False"
  "trace service_115 = []"
  "mounts service_115 = [''n#ab'' \<mapsto> info_ab]"
  by (simp_all add: service_115_def update_hash_def service_init_def calc115_ex_def dict_eq_def
      Let_def on_ver_changed_def mount_node_def k1_def)

lemma service_both_simps:
  "current_keys service_both = [(Caps115, [k1])]"
  "xep115_support service_both = True"
  "xep390_support service_both = True"
  "trace service_both = []"
  by (simp_all add: service_both_def service_115_simps)

lemma new_keys_both:
  "new_keys_of calc115_ex calc390_ex service_both info_ab = [(Caps115, [k1]), (Caps390, [k2])]"
  by (simp add: new_keys_of_def service_both_simps calc115_ex_def calc390_ex_def)

lemma new_keys_115:
  "new_keys_of calc115_ex calc390_ex service_115 info_ab = [(Caps115, [k1])]"
  by (simp add: new_keys_of_def service_115_simps calc115_ex_def)

text \<open>
  C2, as the code has it.  When the dict of newly calculated keys equals the current one,
  \<open>update_hash\<close> does nothing.  When it differs, \<open>update_hash\<close> unmounts the node of
  every key of the old dict, then mounts the node of every key of the new dict, then
  emits the change notification, once, and the new dict is the current one.  A key that is
  in both the old and the new dict is therefore unmounted and mounted again.
\<close>

theorem update_hash_remounts_all:
  "(dict_eq (current_keys self) (new_keys_of c115 c390 self info) \<longrightarrow>
      update_hash c115 c390 self info = self)
   \<and> (\<not> dict_eq (current_keys self) (new_keys_of c115 c390 self info) \<longrightarrow>
      trace (update_hash c115 c390 self info) =
        trace self
        @ map (\<lambda>k. Unmount (node k)) (concat (map snd (current_keys self)))
        @ map (\<lambda>k. Mount (node k)) (concat (map snd (new_keys_of c115 c390 self info)))
        @ [VerChanged]
      \<and> length (filter (\<lambda>e. e = VerChanged) (trace (update_hash c115 c390 self info))) =
          Suc (length (filter (\<lambda>e. e = VerChanged) (trace self)))
      \<and> current_keys (update_hash c115 c390 self info) = new_keys_of c115 c390 self info)"
  by (simp add: update_hash_def new_keys_of_def Let_def fold_unmount fold_mount on_ver_changed_def
      filter_map o_def)

theorem update_hash_remounts_all_witness:
  "dict_eq (current_keys service_115) (new_keys_of calc115_ex calc390_ex service_115 info_ab)
   \<and> update_hash calc115_ex calc390_ex service_115 info_ab = service_115
   \<and> dict_eq (current_keys service_both) (new_keys_of calc115_ex calc390_ex service_both info_ab) = False
   \<and> trace (update_hash calc115_ex calc390_ex service_both info_ab)
       = [Unmount ''n#ab'', Mount ''n#ab'', Mount ''n#cd'', VerChanged]
   \<and> current_keys (update_hash calc115_ex calc390_ex service_both info_ab)
       = [(Caps115, [k1]), (Caps390, [k2])]"
proof -
  have e: "dict_eq (current_keys service_115) (new_keys_of calc115_ex calc390_ex service_115 info_ab)"
    by (simp add: new_keys_115 service_115_simps dict_eq_def)
  have n: "\<not> dict_eq (current_keys service_both) (new_keys_of calc115_ex calc390_ex service_both info_ab)"
    by (simp add: new_keys_both service_both_simps dict_eq_def)
  note a = update_hash_remounts_all [of service_115 calc115_ex calc390_ex info_ab]
  note b = update_hash_remounts_all [of service_both calc115_ex calc390_ex info_ab]
  from a e have c1: "update_hash calc115_ex calc390_ex service_115 info_ab = service_115"
    by blast
  from b n have "trace (update_hash calc115_ex calc390_ex service_both info_ab) =
        trace service_both
        @ map (\<lambda>k. Unmount (node k)) (concat (map snd (current_keys service_both)))
        @ map (\<lambda>k. Mount (node k)) (concat (map snd (new_keys_of calc115_ex calc390_ex service_both info_ab)))
        @ [VerChanged]"
    and c3: "current_keys (update_hash calc115_ex calc390_ex service_both info_ab)
        = new_keys_of calc115_ex calc390_ex service_both info_ab"
    by blast+
  then have c2: "trace (update_hash calc115_ex calc390_ex service_both info_ab)
       = [Unmount ''n#ab'', Mount ''n#ab'', Mount ''n#cd'', VerChanged]"
    by (simp add: new_keys_both service_both_simps k1_def k2_def)
  from e c1 n c2 c3 show ?thesis by (simp add: new_keys_both)
qed

text \<open>
  The claim C2 as the spec states it fails: \<open>k1\<close> is advertised before and after the
  \<open>update_hash\<close> that adds \<open>k2\<close>, and its node is unmounted and mounted again by
  that call.
\<close>

theorem update_hash_flicker_counterexample:
  "k1 \<in> set (concat (map snd (current_keys service_both)))
   \<and> k1 \<in> set (concat (map snd (current_keys (update_hash calc115_ex calc390_ex service_both info_ab))))
   \<and> current_keys (update_hash calc115_ex calc390_ex service_both info_ab) \<noteq> current_keys service_both
   \<and> trace service_both = []
   \<and> trace (update_hash calc115_ex calc390_ex service_both info_ab)
       = [Unmount (node k1), Mount (node k1), Mount (node k2), VerChanged]"
proof -
  have n: "\<not> dict_eq [(Caps115, [k1])] [(Caps115, [k1]), (Caps390, [k2])]"
    by (simp add: dict_eq_def)
  have u: "update_hash calc115_ex calc390_ex service_both info_ab =
      on_ver_changed
        (fold (\<lambda>k s. mount_node s (node k) info_ab) [k1, k2]
          ((fold (\<lambda>k s. unmount_node s (node k)) [k1] service_both)
             \<lparr> current_keys := [(Caps115, [k1]), (Caps390, [k2])] \<rparr>))"
    by (simp add: update_hash_def service_both_simps calc115_ex_def calc390_ex_def n Let_def)
  show ?thesis
    by (simp add: u service_both_simps on_ver_changed_def mount_node_def unmount_node_def)
qed

end
